theory Spec2Isabelle
  imports Main "HOL-Library.Sublist"
begin

section \<open>Python values, exceptions and observable effects\<close>

text \<open>
  The arguments \<open>args_option\<close> and \<open>args_default\<close> of \<open>get_option\<close> are arbitrary
  Python objects. The model carries the built-in scalar types; \<open>bool\<close> is a subclass of
  \<open>int\<close> in Python, so \<open>True == 1\<close> and \<open>False == 0\<close> hold across the two types.
\<close>

datatype pyval = PyNone | PyBool bool | PyInt int | PyStr string

fun py_eq :: "pyval \<Rightarrow> pyval \<Rightarrow> bool" where
  "py_eq PyNone PyNone = True"
| "py_eq (PyBool a) (PyBool b) = (a = b)"
| "py_eq (PyInt a) (PyInt b) = (a = b)"
| "py_eq (PyBool a) (PyInt b) = ((if a then 1 else 0) = b)"
| "py_eq (PyInt a) (PyBool b) = (a = (if b then 1 else 0))"
| "py_eq (PyStr a) (PyStr b) = (a = b)"
| "py_eq _ _ = False"

text \<open>The operator \<open>!=\<close> of the built-in types is the negation of \<open>==\<close>.\<close>

definition py_ne :: "pyval \<Rightarrow> pyval \<Rightarrow> bool" where
  "py_ne a b = (\<not> py_eq a b)"

text \<open>
  The exceptions that can travel through the module. \<open>IOError\<close> stands for the whole
  \<open>OSError\<close> family (a missing file, a directory, a permission failure);
  \<open>ParsingError\<close> stands for every other exception raised while a file is read
  (the parser's own errors, a decoding error).
\<close>

datatype py_error = KeyError | TypeError | IOError | ParsingError

text \<open>Calls on the logger of a \<open>ProsperConfig\<close>, in the order they are made.\<close>

datatype log_record = Debug string | Warning string

text \<open>
  What the loader functions do to the outside world, in order: the probes
  \<open>path.isfile\<close>, the calls of \<open>open\<close>, and the calls of \<open>warnings.warn\<close> with their
  category.
\<close>

datatype event = IsFile string | Open string | UserWarning string | DeprecationWarning string

section \<open>Parsed documents and the file system\<close>

text \<open>
  A parsed \<open>configparser.ConfigParser\<close> as the mapping protocol shows it: section name to
  option name to value. The parsers are created with \<open>allow_no_value=True\<close>, so an option
  may be present without a value, and then reads as \<open>None\<close>. Values are the strings
  the parser hands out, after interpolation; what the parser does to option names and
  default sections is part of the mapping. A value whose interpolation fails on reading is
  outside the model.
\<close>

type_synonym section_proxy = "string \<rightharpoonup> string option"
type_synonym ConfigParser = "string \<rightharpoonup> section_proxy"

definition py_of_value :: "string option \<Rightarrow> pyval" where
  "py_of_value v = (case v of None \<Rightarrow> PyNone | Some s \<Rightarrow> PyStr s)"

text \<open>
  The expression \<open>config[section_name][key_name]\<close>: each of the two subscripts raises
  \<open>KeyError\<close> when its key is missing.
\<close>

definition getitem :: "ConfigParser \<Rightarrow> string \<Rightarrow> string \<Rightarrow> py_error + pyval" where
  "getitem config section_name key_name =
     (case config section_name of
        None \<Rightarrow> Inl KeyError
      | Some proxy \<Rightarrow>
          (case proxy key_name of
             None \<Rightarrow> Inl KeyError
           | Some v \<Rightarrow> Inr (py_of_value v)))"

text \<open>
  The same expression when \<open>config\<close> may be \<open>None\<close>: subscripting \<open>None\<close> raises
  \<open>TypeError\<close>.
\<close>

definition getitem_opt :: "ConfigParser option \<Rightarrow> string \<Rightarrow> string \<Rightarrow> py_error + pyval" where
  "getitem_opt config section_name key_name =
     (case config of
        None \<Rightarrow> Inl TypeError
      | Some c \<Rightarrow> getitem c section_name key_name)"

text \<open>
  A path names nothing, a directory, or a regular file. For a regular file the model keeps
  what opening it and feeding it to a fresh parser (extended interpolation, no-value keys,
  \<open>=\<close> as delimiter, \<open>#\<close> for inline comments) produces: the parsed document or the
  exception raised on the way.
\<close>

datatype fs_entry = Absent | Directory | File "py_error + ConfigParser"

type_synonym filesystem = "string \<Rightarrow> fs_entry"

definition isfile :: "filesystem \<Rightarrow> string \<Rightarrow> bool" where
  "isfile fs p = (case fs p of File _ \<Rightarrow> True | _ \<Rightarrow> False)"

text \<open>
  The block \<open>with open(p, 'r') as filehandle: config.read_file(filehandle)\<close>:
  \<open>open\<close> raises \<open>FileNotFoundError\<close> or \<open>IsADirectoryError\<close>, both \<open>IOError\<close>, on a path
  that is not a file.
\<close>

definition read_file :: "filesystem \<Rightarrow> string \<Rightarrow> py_error + ConfigParser" where
  "read_file fs p = (case fs p of File r \<Rightarrow> r | _ \<Rightarrow> Inl IOError)"

section \<open>The module \<open>prosper_config\<close>\<close>

text \<open>
  \<open>str.replace(old, new)\<close>: every occurrence of \<open>old\<close>, found from the left and not
  overlapping an earlier one, is replaced. With an empty \<open>old\<close>, \<open>new\<close> is inserted before
  every character and at the end.
\<close>

fun str_replace :: "string \<Rightarrow> string \<Rightarrow> string \<Rightarrow> string" where
  "str_replace old new [] = (if old = [] then new else [])"
| "str_replace old new (c # cs) =
     (if old = [] then new @ c # str_replace old new cs
      else if prefix old (c # cs) then new @ str_replace old new (drop (length old) (c # cs))
      else c # str_replace old new cs)"

text \<open>\<open>get_local_config_filepath(config_filepath, force_local=False)\<close>\<close>

definition get_local_config_filepath :: "filesystem \<Rightarrow> string \<Rightarrow> bool \<Rightarrow> event list \<times> string" where
  "get_local_config_filepath fs config_filepath force_local =
     (let local_config_filepath = str_replace ''.cfg'' ''_local.cfg'' config_filepath
      in ([IsFile local_config_filepath],
          if isfile fs local_config_filepath \<or> force_local
          then local_config_filepath
          else config_filepath))"

text \<open>
  Truth value of the optional argument \<open>local_filepath_override\<close>: \<open>None\<close> and the empty
  string are false.
\<close>

definition truthy :: "string option \<Rightarrow> bool" where
  "truthy v = (case v of None \<Rightarrow> False | Some s \<Rightarrow> s \<noteq> [])"

text \<open>
  \<open>get_configs(config_filepath, local_filepath_override=None)\<close>. The third parameter,
  \<open>debug_mode\<close>, is never read.
\<close>

definition get_configs ::
  "filesystem \<Rightarrow> string \<Rightarrow> string option \<Rightarrow>
     event list \<times> (py_error + ConfigParser \<times> ConfigParser option)" where
  "get_configs fs config_filepath local_filepath_override =
     (case read_file fs config_filepath of
        Inl error_msg \<Rightarrow> ([Open config_filepath], Inl error_msg)
      | Inr global_config \<Rightarrow>
          (let (probe, derived) = get_local_config_filepath fs config_filepath True;
               local_filepath =
                 (if truthy local_filepath_override then the local_filepath_override
                  else derived);
               trace = Open config_filepath # probe @ [Open local_filepath]
           in case read_file fs local_filepath of
                Inr local_config \<Rightarrow> (trace, Inr (global_config, Some local_config))
              | Inl IOError \<Rightarrow>
                  (trace @ [UserWarning (''No '' @ local_filepath @ '' found in path'')],
                   Inr (global_config, None))
              | Inl error_msg \<Rightarrow> (trace, Inl error_msg)))"

text \<open>
  \<open>get_config(config_filepath, local_override=False)\<close>, the deprecated loader.
  \<open>__name__\<close> is the name of the module.
\<close>

definition name_of_module :: string where
  "name_of_module = ''prosper.common.prosper_config''"

definition get_config ::
  "filesystem \<Rightarrow> string \<Rightarrow> bool \<Rightarrow> event list \<times> (py_error + ConfigParser)" where
  "get_config fs config_filepath local_override =
     (let (probe, found) = get_local_config_filepath fs config_filepath False;
          real_config_filepath = (if local_override then config_filepath else found)
      in (DeprecationWarning (name_of_module @ ''replaced with ProsperConfig'')
            # probe @ [Open real_config_filepath],
          read_file fs real_config_filepath))"

text \<open>
  The class \<open>ProsperConfig\<close>. The logger is a message sink: the model returns the records
  sent to it instead of keeping the sink as a field.
\<close>

record ProsperConfig =
  config_filename :: string
  local_config_filename :: string
  global_config :: ConfigParser
  local_config :: "ConfigParser option"

text \<open>\<open>ProsperConfig.__init__(config_filename, local_filepath_override=None)\<close>\<close>

definition ProsperConfig_init ::
  "filesystem \<Rightarrow> string \<Rightarrow> string option \<Rightarrow> event list \<times> (py_error + ProsperConfig)" where
  "ProsperConfig_init fs config_filename' local_filepath_override =
     (let (probe, found) = get_local_config_filepath fs config_filename' False;
          local_name =
            (if truthy local_filepath_override then the local_filepath_override else found);
          (loading, loaded) = get_configs fs config_filename' local_filepath_override
      in (probe @ loading,
          case loaded of
            Inl error_msg \<Rightarrow> Inl error_msg
          | Inr (global_config', local_config') \<Rightarrow>
              Inr \<lparr>config_filename = config_filename',
                   local_config_filename = local_name,
                   global_config = global_config',
                   local_config = local_config'\<rparr>))"

text \<open>
  \<open>ProsperConfig.get_option(section_name, key_name, args_option=None, args_default=None)\<close>.
  Each \<open>try\<close> block catches \<open>KeyError\<close> only; any other exception leaves the method.
\<close>

definition get_option ::
  "ProsperConfig \<Rightarrow> string \<Rightarrow> string \<Rightarrow> pyval \<Rightarrow> pyval \<Rightarrow> log_record list \<times> (py_error + pyval)" where
  "get_option self section_name key_name args_option args_default =
     (if py_ne args_option args_default
      then ([Debug ''picking config'', Debug ''-- using function args''], Inr args_option)
      else
        (let section_info = section_name @ ''.'' @ key_name
         in case getitem_opt (local_config self) section_name key_name of
              Inr local_option \<Rightarrow>
                ([Debug ''picking config'', Debug ''-- using local config''], Inr local_option)
            | Inl KeyError \<Rightarrow>
                (case getitem (global_config self) section_name key_name of
                   Inr global_option \<Rightarrow>
                     ([Debug ''picking config'',
                       Debug (section_info @ ''not found in local config''),
                       Debug ''-- using global config''], Inr global_option)
                 | Inl KeyError \<Rightarrow>
                     ([Debug ''picking config'',
                       Debug (section_info @ ''not found in local config''),
                       Warning (section_info @ ''not found in global config''),
                       Debug ''-- using default argument''], Inr args_default)
                 | Inl error_msg \<Rightarrow>
                     ([Debug ''picking config'',
                       Debug (section_info @ ''not found in local config'')], Inl error_msg))
            | Inl error_msg \<Rightarrow> ([Debug ''picking config''], Inl error_msg)))"

text \<open>The paths handed to \<open>open\<close>, in order.\<close>

fun opened :: "event list \<Rightarrow> string list" where
  "opened [] = []"
| "opened (Open p # es) = p # opened es"
| "opened (_ # es) = opened es"

section \<open>Concrete documents and file systems\<close>

text \<open>
  The scenario of the specification: the master file defines \<open>[api] timeout = 30\<close>, the
  local file defines \<open>[api] timeout = 5\<close>.
\<close>

definition master_doc :: ConfigParser where
  "master_doc = [''api'' \<mapsto> [''timeout'' \<mapsto> Some ''30'']]"

definition local_doc :: ConfigParser where
  "local_doc = [''api'' \<mapsto> [''timeout'' \<mapsto> Some ''5'']]"

definition scenario :: ProsperConfig where
  "scenario = \<lparr>config_filename = ''config.cfg'',
               local_config_filename = ''config_local.cfg'',
               global_config = master_doc,
               local_config = Some local_doc\<rparr>"

text \<open>
  The object that \<open>ProsperConfig('config.cfg')\<close> builds when \<open>config.cfg\<close> holds the
  master document above and \<open>config_local.cfg\<close> does not exist.
\<close>

definition no_local :: ProsperConfig where
  "no_local = \<lparr>config_filename = ''config.cfg'',
               local_config_filename = ''config.cfg'',
               global_config = master_doc,
               local_config = None\<rparr>"

text \<open>A disk that holds both files, and one that holds the master file only.\<close>

definition fs_both :: filesystem where
  "fs_both p =
     (if p = ''config.cfg'' then File (Inr master_doc)
      else if p = ''config_local.cfg'' then File (Inr local_doc)
      else Absent)"

definition fs_master_only :: filesystem where
  "fs_master_only p = (if p = ''config.cfg'' then File (Inr master_doc) else Absent)"

text \<open>A disk whose local file exists and does not parse.\<close>

definition fs_bad_local :: filesystem where
  "fs_bad_local p =
     (if p = ''config.cfg'' then File (Inr master_doc)
      else if p = ''config_local.cfg'' then File (Inl ParsingError)
      else Absent)"

section \<open>Option resolution\<close>

lemma getitem_KeyError_iff:
  "getitem config s k = Inl KeyError \<longleftrightarrow>
     (config s = None \<or> (\<exists>proxy. config s = Some proxy \<and> proxy k = None))"
  by (auto simp: getitem_def split: option.splits)

lemma getitem_error: "getitem config s k = Inl e \<Longrightarrow> e = KeyError"
  by (auto simp: getitem_def split: option.splits)

text \<open>
  C1. Whenever the runtime value differs from the fallback default, \<open>get_option\<close> returns
  the runtime value itself, whatever the local and master documents hold, and also when
  there is no local document.
\<close>

theorem get_option_runtime_dominates:
  "py_ne args_option args_default \<Longrightarrow>
     snd (get_option self section_name key_name args_option args_default) = Inr args_option"
  by (simp add: get_option_def)

theorem get_option_runtime_dominates_witness:
  "py_ne (PyInt 99) PyNone \<and>
   getitem_opt (local_config scenario) ''api'' ''timeout'' = Inr (PyStr ''5'') \<and>
   getitem (global_config scenario) ''api'' ''timeout'' = Inr (PyStr ''30'') \<and>
   snd (get_option scenario ''api'' ''timeout'' (PyInt 99) PyNone) = Inr (PyInt 99)"
proof -
  have ne: "py_ne (PyInt 99) PyNone"
    by (simp add: py_ne_def)
  have "snd (get_option scenario ''api'' ''timeout'' (PyInt 99) PyNone) = Inr (PyInt 99)"
    using get_option_runtime_dominates [OF ne] .
  moreover have "getitem_opt (local_config scenario) ''api'' ''timeout'' = Inr (PyStr ''5'')"
    by (simp add: getitem_opt_def getitem_def scenario_def local_doc_def py_of_value_def)
  moreover have "getitem (global_config scenario) ''api'' ''timeout'' = Inr (PyStr ''30'')"
    by (simp add: getitem_def scenario_def master_doc_def py_of_value_def)
  ultimately show ?thesis using ne by simp
qed

text \<open>
  With a local document loaded, \<open>get_option\<close> always returns a value: both subscript
  expressions can only raise \<open>KeyError\<close>, which is caught.
\<close>

lemma get_option_returns_with_local_document:
  "local_config self = Some ld \<Longrightarrow> \<exists>v. snd (get_option self s k a d) = Inr v"
  by (auto simp: get_option_def getitem_opt_def Let_def
      split: sum.splits py_error.splits dest: getitem_error)

text \<open>
  Without a local document and without a runtime override, the first subscript is applied
  to \<open>None\<close>; the \<open>TypeError\<close> is not a \<open>KeyError\<close> and leaves the method.
\<close>

lemma get_option_without_local_document:
  "local_config self = None \<Longrightarrow> \<not> py_ne a d \<Longrightarrow>
     get_option self s k a d = ([Debug ''picking config''], Inl TypeError)"
  by (simp add: get_option_def getitem_opt_def)

text \<open>
  An entry that a loaded local document misses and the master document has is answered from
  the master document.
\<close>

lemma get_option_master_fallback:
  "local_config self = Some ld \<Longrightarrow> getitem ld s k = Inl KeyError \<Longrightarrow>
   global_config self s = Some gsec \<Longrightarrow> gsec k = Some gv \<Longrightarrow> \<not> py_ne a d \<Longrightarrow>
     snd (get_option self s k a d) = Inr (py_of_value gv)"
  by (simp add: get_option_def getitem_opt_def) (simp add: getitem_def)

text \<open>
  C2. For an entry present in both documents and a runtime value equal to the fallback
  default, \<open>get_option\<close> returns the value of the local document.
\<close>

theorem get_option_local_precedence:
  "local_config self = Some ld \<Longrightarrow> ld s = Some lsec \<Longrightarrow> lsec k = Some lv \<Longrightarrow>
   global_config self s = Some gsec \<Longrightarrow> gsec k = Some gv \<Longrightarrow>
   \<not> py_ne a d \<Longrightarrow>
     snd (get_option self s k a d) = Inr (py_of_value lv)"
  by (simp add: get_option_def getitem_opt_def getitem_def)

theorem get_option_local_precedence_witness:
  "local_config scenario = Some local_doc \<and>
   local_doc ''api'' = Some [''timeout'' \<mapsto> Some ''5''] \<and>
   [''timeout'' \<mapsto> Some ''5''] ''timeout'' = Some (Some ''5'') \<and>
   global_config scenario ''api'' = Some [''timeout'' \<mapsto> Some ''30''] \<and>
   [''timeout'' \<mapsto> Some ''30''] ''timeout'' = Some (Some ''30'') \<and>
   \<not> py_ne PyNone PyNone \<and>
   snd (get_option scenario ''api'' ''timeout'' PyNone PyNone) = Inr (PyStr ''5'')"
proof -
  have h1: "local_config scenario = Some local_doc"
    by (simp add: scenario_def)
  have h2: "local_doc ''api'' = Some [''timeout'' \<mapsto> Some ''5'']"
    by (simp add: local_doc_def)
  have h3: "[''timeout'' \<mapsto> Some ''5''] ''timeout'' = Some (Some ''5'')"
    by simp
  have h4: "global_config scenario ''api'' = Some [''timeout'' \<mapsto> Some ''30'']"
    by (simp add: scenario_def master_doc_def)
  have h5: "[''timeout'' \<mapsto> Some ''30''] ''timeout'' = Some (Some ''30'')"
    by simp
  have h6: "\<not> py_ne PyNone PyNone"
    by (simp add: py_ne_def)
  from get_option_local_precedence [OF h1 h2 h3 h4 h5 h6]
  have "snd (get_option scenario ''api'' ''timeout'' PyNone PyNone) = Inr (PyStr ''5'')"
    by (simp add: py_of_value_def)
  with h1 h2 h3 h4 h5 h6 show ?thesis by simp
qed

text \<open>
  C3. The claim is that \<open>get_option\<close> never raises for a missing entry, also when the
  local document is absent. On the object built from a disk without \<open>config_local.cfg\<close>,
  asking for \<open>api.retries\<close>, which the master document does not have, raises
  \<open>TypeError\<close> instead of returning the default.
\<close>

theorem get_option_missing_entry_no_local_document:
  "snd (ProsperConfig_init fs_master_only ''config.cfg'' None) = Inr no_local \<and>
   getitem (global_config no_local) ''api'' ''retries'' = Inl KeyError \<and>
   snd (get_option no_local ''api'' ''retries'' PyNone PyNone) = Inl TypeError"
proof -
  have "snd (ProsperConfig_init fs_master_only ''config.cfg'' None) = Inr no_local"
    by (simp add: ProsperConfig_init_def get_configs_def get_local_config_filepath_def
        fs_master_only_def isfile_def read_file_def truthy_def no_local_def Let_def)
  moreover have "getitem (global_config no_local) ''api'' ''retries'' = Inl KeyError"
    by (simp add: getitem_def no_local_def master_doc_def)
  moreover have "snd (get_option no_local ''api'' ''retries'' PyNone PyNone) = Inl TypeError"
    by (simp add: get_option_def getitem_opt_def no_local_def py_ne_def)
  ultimately show ?thesis by simp
qed

text \<open>
  C4. The claim is that an entry absent from both documents always yields the fallback
  default, with \<open>get_option('api', 'retries', None, 3)\<close> returning \<open>3\<close>. That call
  returns \<open>None\<close>: its runtime value differs from its default, so the first branch
  answers.
\<close>

theorem get_option_default_counterexample:
  "getitem_opt (local_config scenario) ''api'' ''retries'' = Inl KeyError \<and>
   getitem (global_config scenario) ''api'' ''retries'' = Inl KeyError \<and>
   snd (get_option scenario ''api'' ''retries'' PyNone (PyInt 3)) = Inr PyNone \<and>
   snd (get_option scenario ''api'' ''retries'' PyNone (PyInt 3)) \<noteq> Inr (PyInt 3)"
  by (simp add: get_option_def getitem_opt_def getitem_def scenario_def local_doc_def
      master_doc_def py_ne_def)

text \<open>
  C4, amended. For an entry that misses in the loaded local document and in the master
  document, and a runtime value equal to the fallback default, \<open>get_option\<close> returns the
  fallback default itself, whatever its type.
\<close>

theorem get_option_falls_to_default:
  "local_config self = Some ld \<Longrightarrow> getitem ld s k = Inl KeyError \<Longrightarrow>
   getitem (global_config self) s k = Inl KeyError \<Longrightarrow> \<not> py_ne a d \<Longrightarrow>
     snd (get_option self s k a d) = Inr d"
  by (simp add: get_option_def getitem_opt_def)

theorem get_option_falls_to_default_witness:
  "local_config scenario = Some local_doc \<and>
   getitem local_doc ''api'' ''retries'' = Inl KeyError \<and>
   getitem (global_config scenario) ''api'' ''retries'' = Inl KeyError \<and>
   \<not> py_ne (PyInt 3) (PyInt 3) \<and>
   snd (get_option scenario ''api'' ''retries'' (PyInt 3) (PyInt 3)) = Inr (PyInt 3)"
proof -
  have h1: "local_config scenario = Some local_doc"
    by (simp add: scenario_def)
  have h2: "getitem local_doc ''api'' ''retries'' = Inl KeyError"
    by (simp add: getitem_def local_doc_def)
  have h3: "getitem (global_config scenario) ''api'' ''retries'' = Inl KeyError"
    by (simp add: getitem_def scenario_def master_doc_def)
  have h4: "\<not> py_ne (PyInt 3) (PyInt 3)"
    by (simp add: py_ne_def)
  from get_option_falls_to_default [OF h1 h2 h3 h4] h1 h2 h3 h4
  show ?thesis by simp
qed

text \<open>
  C5. The claim is that an entry of the master document is returned whenever the local tier
  cannot answer, also when the local document is absent. On the object built from a disk
  without \<open>config_local.cfg\<close>, asking for \<open>api.timeout\<close>, which the master document
  defines, raises \<open>TypeError\<close>.
\<close>

theorem get_option_master_entry_no_local_document:
  "local_config no_local = None \<and>
   getitem (global_config no_local) ''api'' ''timeout'' = Inr (PyStr ''30'') \<and>
   snd (get_option no_local ''api'' ''timeout'' PyNone PyNone) = Inl TypeError"
proof -
  have "getitem (global_config no_local) ''api'' ''timeout'' = Inr (PyStr ''30'')"
    by (simp add: getitem_def no_local_def master_doc_def py_of_value_def)
  moreover have "snd (get_option no_local ''api'' ''timeout'' PyNone PyNone) = Inl TypeError"
    by (simp add: get_option_def getitem_opt_def no_local_def py_ne_def)
  ultimately show ?thesis by (simp add: no_local_def)
qed

section \<open>Deriving the local path\<close>

text \<open>
  Two equations determine what \<open>str.replace\<close> does with a non-empty pattern: a string
  without an occurrence is unchanged, and the leftmost occurrence is replaced and the scan
  goes on behind it.
\<close>

lemma str_replace_no_occurrence:
  "old \<noteq> [] \<Longrightarrow> \<not> sublist old s \<Longrightarrow> str_replace old new s = s"
  by (induction s) (auto simp: sublist_Cons_right)

lemma prefix_append_short:
  "prefix xs (ys @ zs) \<Longrightarrow> length xs \<le> length ys \<Longrightarrow> prefix xs ys"
  by (auto simp: prefix_append)

lemma prefix_before_last:
  assumes "old \<noteq> []" and "prefix old (c # a @ old @ b)"
  shows "prefix old (c # a @ butlast old)"
proof -
  have "c # a @ old @ b = (c # a @ butlast old) @ (last old # b)"
    using assms(1) by simp
  with assms(2) have "prefix old ((c # a @ butlast old) @ (last old # b))"
    by simp
  moreover have "length old \<le> length (c # a @ butlast old)"
    by simp
  ultimately show ?thesis
    by (rule prefix_append_short)
qed

lemma str_replace_leftmost:
  "old \<noteq> [] \<Longrightarrow> \<not> sublist old (a @ butlast old) \<Longrightarrow>
     str_replace old new (a @ old @ b) = a @ new @ str_replace old new b"
proof (induction a)
  case Nil
  then obtain x xs where "old = x # xs" by (cases old) auto
  then show ?case by simp
next
  case (Cons c a)
  have "\<not> prefix old (c # a @ old @ b)"
    using Cons.prems prefix_before_last [of old c a b] by (auto dest: prefix_imp_sublist)
  moreover have "\<not> sublist old (a @ butlast old)"
    using Cons.prems by (auto simp: sublist_Cons_right)
  ultimately show ?case
    using Cons by simp
qed

text \<open>
  C6. \<open>get_local_config_filepath\<close> replaces every \<open>.cfg\<close> of the master path by
  \<open>_local.cfg\<close> (so \<open>config.cfg\<close> gives \<open>config_local.cfg\<close>), probes the candidate once
  with \<open>path.isfile\<close> and does nothing else, and returns the candidate when it is a file
  or the force flag is set, the master path otherwise.
\<close>

theorem get_local_config_filepath_spec:
  "(let candidate = str_replace ''.cfg'' ''_local.cfg'' p
    in get_local_config_filepath fs p force =
         ([IsFile candidate], if isfile fs candidate \<or> force then candidate else p) \<and>
       (\<not> sublist ''.cfg'' p \<longrightarrow> candidate = p) \<and>
       (\<forall>a b. p = a @ ''.cfg'' @ b \<and> \<not> sublist ''.cfg'' (a @ ''.cf'') \<longrightarrow>
          candidate = a @ ''_local.cfg'' @ str_replace ''.cfg'' ''_local.cfg'' b)) \<and>
   str_replace ''.cfg'' ''_local.cfg'' ''config.cfg'' = ''config_local.cfg''"
proof -
  have "get_local_config_filepath fs p force =
         ([IsFile (str_replace ''.cfg'' ''_local.cfg'' p)],
          if isfile fs (str_replace ''.cfg'' ''_local.cfg'' p) \<or> force
          then str_replace ''.cfg'' ''_local.cfg'' p else p)"
    by (simp add: get_local_config_filepath_def Let_def)
  moreover have "\<not> sublist ''.cfg'' p \<longrightarrow> str_replace ''.cfg'' ''_local.cfg'' p = p"
    by (simp add: str_replace_no_occurrence)
  moreover have "\<forall>a b. p = a @ ''.cfg'' @ b \<and> \<not> sublist ''.cfg'' (a @ ''.cf'') \<longrightarrow>
          str_replace ''.cfg'' ''_local.cfg'' p
            = a @ ''_local.cfg'' @ str_replace ''.cfg'' ''_local.cfg'' b"
    using str_replace_leftmost [of "''.cfg''" _ "''_local.cfg''"] by simp
  moreover have "str_replace ''.cfg'' ''_local.cfg'' ''config.cfg'' = ''config_local.cfg''"
    by simp
  ultimately show ?thesis
    unfolding Let_def by blast
qed

theorem get_local_config_filepath_spec_witness:
  "\<not> sublist ''.cfg'' ''config.ini'' \<and>
   get_local_config_filepath fs_master_only ''config.ini'' True
     = ([IsFile ''config.ini''], ''config.ini'') \<and>
   ''config.cfg'' = ''config'' @ ''.cfg'' @ [] \<and>
   \<not> sublist ''.cfg'' (''config'' @ ''.cf'') \<and>
   get_local_config_filepath fs_master_only ''config.cfg'' False
     = ([IsFile ''config_local.cfg''], ''config.cfg'') \<and>
   get_local_config_filepath fs_master_only ''config.cfg'' True
     = ([IsFile ''config_local.cfg''], ''config_local.cfg'') \<and>
   get_local_config_filepath fs_both ''config.cfg'' False
     = ([IsFile ''config_local.cfg''], ''config_local.cfg'')"
proof -
  have no: "\<not> sublist ''.cfg'' ''config.ini''"
    by (simp add: sublist_Cons_right)
  have first: "\<not> sublist ''.cfg'' (''config'' @ ''.cf'')"
    by (simp add: sublist_Cons_right)
  have "get_local_config_filepath fs_master_only ''config.ini'' True
     = ([IsFile ''config.ini''], ''config.ini'')"
    using get_local_config_filepath_spec [of "''config.ini''" fs_master_only True] no
    by (simp add: Let_def)
  moreover have "get_local_config_filepath fs_master_only ''config.cfg'' False
     = ([IsFile ''config_local.cfg''], ''config.cfg'')"
    using get_local_config_filepath_spec [of "''config.cfg''" fs_master_only False] first
    by (simp add: Let_def isfile_def fs_master_only_def)
  moreover have "get_local_config_filepath fs_master_only ''config.cfg'' True
     = ([IsFile ''config_local.cfg''], ''config_local.cfg'')"
    using get_local_config_filepath_spec [of "''config.cfg''" fs_master_only True] first
    by (simp add: Let_def)
  moreover have "get_local_config_filepath fs_both ''config.cfg'' False
     = ([IsFile ''config_local.cfg''], ''config_local.cfg'')"
    using get_local_config_filepath_spec [of "''config.cfg''" fs_both False] first
    by (simp add: Let_def isfile_def fs_both_def)
  ultimately show ?thesis
    using no first by simp
qed

section \<open>Loading the documents\<close>

lemma get_configs_master_fails:
  "read_file fs p = Inl e \<Longrightarrow> get_configs fs p ov = ([Open p], Inl e)"
  by (simp add: get_configs_def)

lemma get_configs_master_loads:
  "read_file fs p = Inr g \<Longrightarrow>
   get_configs fs p ov =
     (let lp = (if truthy ov then the ov else str_replace ''.cfg'' ''_local.cfg'' p);
          trace = [Open p, IsFile (str_replace ''.cfg'' ''_local.cfg'' p), Open lp]
      in case read_file fs lp of
           Inr l \<Rightarrow> (trace, Inr (g, Some l))
         | Inl e \<Rightarrow> if e = IOError
                    then (trace @ [UserWarning (''No '' @ lp @ '' found in path'')], Inr (g, None))
                    else (trace, Inl e))"
  by (simp add: get_configs_def get_local_config_filepath_def Let_def
      split: sum.splits py_error.splits)

lemma ProsperConfig_init_unfold:
  "ProsperConfig_init fs p ov =
     (IsFile (str_replace ''.cfg'' ''_local.cfg'' p) # fst (get_configs fs p ov),
      case snd (get_configs fs p ov) of
        Inl e \<Rightarrow> Inl e
      | Inr (g, l) \<Rightarrow>
          Inr \<lparr>config_filename = p,
               local_config_filename =
                 (if truthy ov then the ov
                  else if isfile fs (str_replace ''.cfg'' ''_local.cfg'' p)
                  then str_replace ''.cfg'' ''_local.cfg'' p else p),
               global_config = g,
               local_config = l\<rparr>)"
  by (simp add: ProsperConfig_init_def get_local_config_filepath_def Let_def split: prod.splits)

text \<open>
  C7. The claim is that construction fails exactly when loading the master document fails.
  On a disk whose master file loads and whose local file does not parse, construction
  fails.
\<close>

theorem ProsperConfig_init_counterexample:
  "read_file fs_bad_local ''config.cfg'' = Inr master_doc \<and>
   snd (ProsperConfig_init fs_bad_local ''config.cfg'' None) = Inl ParsingError"
  by (simp add: ProsperConfig_init_unfold get_configs_master_loads read_file_def
      fs_bad_local_def truthy_def Let_def)

text \<open>
  C7, amended. Construction fails exactly when loading the master document fails or
  loading the local file raises something other than \<open>IOError\<close>; the exception is passed
  on unchanged. When the master document loads and opening the local file raises
  \<open>IOError\<close>, as it does for a file that does not exist, construction succeeds, a warning
  is emitted and the local document is \<open>None\<close>.
\<close>

theorem ProsperConfig_init_outcome:
  "(let lp = (if truthy ov then the ov else str_replace ''.cfg'' ''_local.cfg'' p);
        made = ProsperConfig_init fs p ov
    in (isl (snd made) \<longleftrightarrow>
          isl (read_file fs p) \<or> (\<exists>e. e \<noteq> IOError \<and> read_file fs lp = Inl e)) \<and>
       (\<forall>e. read_file fs p = Inl e \<longrightarrow> snd made = Inl e) \<and>
       (\<forall>g e. read_file fs p = Inr g \<and> read_file fs lp = Inl e \<and> e \<noteq> IOError \<longrightarrow>
          snd made = Inl e) \<and>
       (\<forall>g. read_file fs p = Inr g \<and> read_file fs lp = Inl IOError \<longrightarrow>
          UserWarning (''No '' @ lp @ '' found in path'') \<in> set (fst made) \<and>
          (\<exists>r. snd made = Inr r \<and> global_config r = g \<and> local_config r = None)))"
proof (cases "read_file fs p")
  case (Inl e)
  then show ?thesis
    by (simp add: ProsperConfig_init_unfold get_configs_master_fails Let_def)
next
  case (Inr g)
  then show ?thesis
    by (auto simp: ProsperConfig_init_unfold get_configs_master_loads Let_def
        split: sum.splits)
qed

theorem ProsperConfig_init_outcome_witness:
  "read_file fs_master_only ''config.cfg'' = Inr master_doc \<and>
   read_file fs_master_only ''config_local.cfg'' = Inl IOError \<and>
   \<not> isl (snd (ProsperConfig_init fs_master_only ''config.cfg'' None)) \<and>
   UserWarning ''No config_local.cfg found in path''
     \<in> set (fst (ProsperConfig_init fs_master_only ''config.cfg'' None)) \<and>
   (\<exists>r. snd (ProsperConfig_init fs_master_only ''config.cfg'' None) = Inr r \<and>
        global_config r = master_doc \<and> local_config r = None) \<and>
   read_file fs_bad_local ''config.cfg'' = Inr master_doc \<and>
   read_file fs_bad_local ''config_local.cfg'' = Inl ParsingError \<and>
   ParsingError \<noteq> IOError \<and>
   snd (ProsperConfig_init fs_bad_local ''config.cfg'' None) = Inl ParsingError \<and>
   read_file (\<lambda>p. Absent) ''config.cfg'' = Inl IOError \<and>
   snd (ProsperConfig_init (\<lambda>p. Absent) ''config.cfg'' None) = Inl IOError"
proof -
  have m1: "read_file fs_master_only ''config.cfg'' = Inr master_doc"
    by (simp add: read_file_def fs_master_only_def)
  have l1: "read_file fs_master_only ''config_local.cfg'' = Inl IOError"
    by (simp add: read_file_def fs_master_only_def)
  have m2: "read_file fs_bad_local ''config.cfg'' = Inr master_doc"
    by (simp add: read_file_def fs_bad_local_def)
  have l2: "read_file fs_bad_local ''config_local.cfg'' = Inl ParsingError"
    by (simp add: read_file_def fs_bad_local_def)
  have m3: "read_file (\<lambda>p. Absent) ''config.cfg'' = Inl IOError"
    by (simp add: read_file_def)
  have t: "\<not> truthy None"
    by (simp add: truthy_def)
  have c: "str_replace ''.cfg'' ''_local.cfg'' ''config.cfg'' = ''config_local.cfg''"
    by simp
  note a1 = ProsperConfig_init_outcome [of None "''config.cfg''" fs_master_only,
      unfolded Let_def if_not_P [OF t] c]
  note a2 = ProsperConfig_init_outcome [of None "''config.cfg''" fs_bad_local,
      unfolded Let_def if_not_P [OF t] c]
  note a3 = ProsperConfig_init_outcome [of None "''config.cfg''" "\<lambda>p. Absent",
      unfolded Let_def if_not_P [OF t] c]
  have "\<not> isl (snd (ProsperConfig_init fs_master_only ''config.cfg'' None))"
    using a1 m1 l1 by simp
  moreover have "UserWarning ''No config_local.cfg found in path''
     \<in> set (fst (ProsperConfig_init fs_master_only ''config.cfg'' None)) \<and>
   (\<exists>r. snd (ProsperConfig_init fs_master_only ''config.cfg'' None) = Inr r \<and>
        global_config r = master_doc \<and> local_config r = None)"
    using a1 m1 l1 by simp
  moreover have "snd (ProsperConfig_init fs_bad_local ''config.cfg'' None) = Inl ParsingError"
    using a2 m2 l2 by simp
  moreover have "snd (ProsperConfig_init (\<lambda>p. Absent) ''config.cfg'' None) = Inl IOError"
    using a3 m3 by simp
  ultimately show ?thesis
    using m1 l1 m2 l2 m3 by simp
qed

text \<open>
  C8. The claim is that \<open>get_configs\<close> falls back to the master path when the derived
  local file does not exist, so that the local document equals the master document. It
  opens the derived path and returns no local document.
\<close>

theorem get_configs_fallback_counterexample:
  "fs_master_only ''config_local.cfg'' = Absent \<and>
   get_configs fs_master_only ''config.cfg'' None =
     ([Open ''config.cfg'', IsFile ''config_local.cfg'', Open ''config_local.cfg'',
       UserWarning ''No config_local.cfg found in path''],
      Inr (master_doc, None)) \<and>
   snd (get_configs fs_master_only ''config.cfg'' None) \<noteq> Inr (master_doc, Some master_doc)"
proof -
  have m: "read_file fs_master_only ''config.cfg'' = Inr master_doc"
    by (simp add: read_file_def fs_master_only_def)
  show ?thesis
    by (simp add: get_configs_master_loads [OF m] truthy_def Let_def)
       (simp add: read_file_def fs_master_only_def)
qed

text \<open>
  C8, amended. When the master document loads, no override is given and the derived local
  file does not exist, \<open>get_configs\<close> still opens the derived path, warns, and returns the
  master document with \<open>None\<close> for the local document.
\<close>

theorem get_configs_no_fallback:
  "read_file fs p = Inr g \<Longrightarrow> \<not> truthy ov \<Longrightarrow>
   fs (str_replace ''.cfg'' ''_local.cfg'' p) = Absent \<Longrightarrow>
     get_configs fs p ov =
       ([Open p,
         IsFile (str_replace ''.cfg'' ''_local.cfg'' p),
         Open (str_replace ''.cfg'' ''_local.cfg'' p),
         UserWarning (''No '' @ str_replace ''.cfg'' ''_local.cfg'' p @ '' found in path'')],
        Inr (g, None))"
  by (simp add: get_configs_master_loads read_file_def Let_def)

theorem get_configs_no_fallback_witness:
  "read_file fs_master_only ''config.cfg'' = Inr master_doc \<and>
   \<not> truthy None \<and>
   fs_master_only (str_replace ''.cfg'' ''_local.cfg'' ''config.cfg'') = Absent \<and>
   get_configs fs_master_only ''config.cfg'' None =
     ([Open ''config.cfg'', IsFile ''config_local.cfg'', Open ''config_local.cfg'',
       UserWarning ''No config_local.cfg found in path''],
      Inr (master_doc, None))"
proof -
  have m: "read_file fs_master_only ''config.cfg'' = Inr master_doc"
    by (simp add: read_file_def fs_master_only_def)
  have t: "\<not> truthy None"
    by (simp add: truthy_def)
  have a: "fs_master_only (str_replace ''.cfg'' ''_local.cfg'' ''config.cfg'') = Absent"
    by (simp add: fs_master_only_def)
  from get_configs_no_fallback [OF m t a] m t a show ?thesis
    by simp
qed

text \<open>
  C9. The claim is that the deprecated \<open>get_config\<close> loads the derived local file by
  default. On a disk without \<open>config_local.cfg\<close> the default call opens \<open>config.cfg\<close>.
\<close>

theorem get_config_default_counterexample:
  "get_config fs_master_only ''config.cfg'' False =
     ([DeprecationWarning ''prosper.common.prosper_configreplaced with ProsperConfig'',
       IsFile ''config_local.cfg'', Open ''config.cfg''],
      Inr master_doc) \<and>
   opened (fst (get_config fs_master_only ''config.cfg'' False)) \<noteq> [''config_local.cfg'']"
  by (simp add: get_config_def get_local_config_filepath_def Let_def isfile_def read_file_def
      fs_master_only_def name_of_module_def)

text \<open>
  C9, amended. Every call of \<open>get_config\<close> first emits a \<open>DeprecationWarning\<close>, probes
  the derived local path once, opens exactly one file and returns what reading it gives:
  the master file when the flag is set, otherwise the derived local file when it is a file
  and the master file when it is not.
\<close>

theorem get_config_spec:
  "(let candidate = str_replace ''.cfg'' ''_local.cfg'' p;
        real = (if tracked then p else if isfile fs candidate then candidate else p)
    in get_config fs p tracked =
         ([DeprecationWarning (name_of_module @ ''replaced with ProsperConfig''),
           IsFile candidate, Open real],
          read_file fs real) \<and>
       opened (fst (get_config fs p tracked)) = [real])"
  by (simp add: get_config_def get_local_config_filepath_def Let_def)

theorem get_config_spec_witness:
  "get_config fs_both ''config.cfg'' False =
     ([DeprecationWarning ''prosper.common.prosper_configreplaced with ProsperConfig'',
       IsFile ''config_local.cfg'', Open ''config_local.cfg''],
      Inr local_doc) \<and>
   get_config fs_both ''config.cfg'' True =
     ([DeprecationWarning ''prosper.common.prosper_configreplaced with ProsperConfig'',
       IsFile ''config_local.cfg'', Open ''config.cfg''],
      Inr master_doc) \<and>
   get_config fs_master_only ''config.cfg'' False =
     ([DeprecationWarning ''prosper.common.prosper_configreplaced with ProsperConfig'',
       IsFile ''config_local.cfg'', Open ''config.cfg''],
      Inr master_doc) \<and>
   snd (get_config (\<lambda>p. Absent) ''config.cfg'' False) = Inl IOError"
proof -
  have "get_config fs_both ''config.cfg'' False =
     ([DeprecationWarning ''prosper.common.prosper_configreplaced with ProsperConfig'',
       IsFile ''config_local.cfg'', Open ''config_local.cfg''],
      Inr local_doc)"
    using get_config_spec [of "''config.cfg''" False fs_both]
    by (simp add: Let_def isfile_def read_file_def fs_both_def name_of_module_def)
  moreover have "get_config fs_both ''config.cfg'' True =
     ([DeprecationWarning ''prosper.common.prosper_configreplaced with ProsperConfig'',
       IsFile ''config_local.cfg'', Open ''config.cfg''],
      Inr master_doc)"
    using get_config_spec [of "''config.cfg''" True fs_both]
    by (simp add: Let_def isfile_def read_file_def fs_both_def name_of_module_def)
  moreover have "get_config fs_master_only ''config.cfg'' False =
     ([DeprecationWarning ''prosper.common.prosper_configreplaced with ProsperConfig'',
       IsFile ''config_local.cfg'', Open ''config.cfg''],
      Inr master_doc)"
    using get_config_spec [of "''config.cfg''" False fs_master_only]
    by (simp add: Let_def isfile_def read_file_def fs_master_only_def name_of_module_def)
  moreover have "snd (get_config (\<lambda>p. Absent) ''config.cfg'' False) = Inl IOError"
    using get_config_spec [of "''config.cfg''" False "\<lambda>p. Absent"]
    by (simp add: Let_def isfile_def read_file_def)
  ultimately show ?thesis by simp
qed

text \<open>
  C10. After a construction without override, the recorded local filename is what
  \<open>get_local_config_filepath\<close> returns without the force flag, while the loader opened
  the master path and then the derived path. When the derived path is not a file, the
  recorded name is the master path, which differs from the path the loader tried.
\<close>

theorem recorded_local_filename:
  assumes "snd (ProsperConfig_init fs p ov) = Inr r" and "\<not> truthy ov"
  shows "local_config_filename r = snd (get_local_config_filepath fs p False) \<and>
         opened (fst (ProsperConfig_init fs p ov)) = [p, str_replace ''.cfg'' ''_local.cfg'' p] \<and>
         (\<not> isfile fs (str_replace ''.cfg'' ''_local.cfg'' p) \<longrightarrow>
            local_config_filename r = p \<and>
            local_config_filename r \<noteq> str_replace ''.cfg'' ''_local.cfg'' p)"
proof -
  obtain g where g: "read_file fs p = Inr g"
    using assms(1) by (cases "read_file fs p")
      (simp_all add: ProsperConfig_init_unfold get_configs_master_fails)
  then have regular: "isfile fs p"
    by (auto simp: read_file_def isfile_def split: fs_entry.splits)
  have name: "local_config_filename r = snd (get_local_config_filepath fs p False)"
    using assms
    by (auto simp: ProsperConfig_init_unfold get_local_config_filepath_def Let_def
        split: sum.splits)
  have opens: "opened (fst (ProsperConfig_init fs p ov)) = [p, str_replace ''.cfg'' ''_local.cfg'' p]"
    using assms(2) by (simp add: ProsperConfig_init_unfold get_configs_master_loads [OF g] Let_def
      split: sum.splits)
  show ?thesis
    using name opens regular by (auto simp: get_local_config_filepath_def Let_def)
qed

theorem recorded_local_filename_witness:
  "snd (ProsperConfig_init fs_master_only ''config.cfg'' None) = Inr no_local \<and>
   \<not> truthy None \<and>
   \<not> isfile fs_master_only ''config_local.cfg'' \<and>
   local_config_filename no_local = ''config.cfg'' \<and>
   opened (fst (ProsperConfig_init fs_master_only ''config.cfg'' None))
     = [''config.cfg'', ''config_local.cfg''] \<and>
   local_config_filename no_local \<noteq> ''config_local.cfg''"
proof -
  have made: "snd (ProsperConfig_init fs_master_only ''config.cfg'' None) = Inr no_local"
    by (simp add: ProsperConfig_init_def get_configs_def get_local_config_filepath_def
        fs_master_only_def isfile_def read_file_def truthy_def no_local_def Let_def)
  have t: "\<not> truthy None"
    by (simp add: truthy_def)
  have gone: "\<not> isfile fs_master_only ''config_local.cfg''"
    by (simp add: isfile_def fs_master_only_def)
  from recorded_local_filename [OF made t] made t gone show ?thesis
    by (simp add: get_local_config_filepath_def isfile_def fs_master_only_def Let_def)
qed

end
